theory Spec2Isabelle
  imports Main "HOL-Library.Word"
begin

unbundle bit_operations_syntax

section \<open>The J1939 socket layer (net/can/j1939/socket.c)\<close>

subsection \<open>Scalar types and constants\<close>

type_synonym u8 = "8 word"
type_synonym u32 = "32 word"
type_synonym name_t = "64 word"
type_synonym pgn_t = "32 word"
type_synonym priority_t = "8 word"

text \<open>Error numbers of the kernel; a function returns \<open>- E\<close> on failure, as in C.\<close>

definition EPERM :: int where "EPERM = 1"
definition ENOENT :: int where "ENOENT = 2"
definition EINTR :: int where "EINTR = 4"
definition EIO :: int where "EIO = 5"
definition ENXIO :: int where "ENXIO = 6"
definition EAGAIN :: int where "EAGAIN = 11"
definition ENOMEM :: int where "ENOMEM = 12"
definition EACCES :: int where "EACCES = 13"
definition EFAULT :: int where "EFAULT = 14"
definition ENODEV :: int where "ENODEV = 19"
definition EINVAL :: int where "EINVAL = 22"
definition EDOM :: int where "EDOM = 33"
definition EBADFD :: int where "EBADFD = 77"
definition EDESTADDRREQ :: int where "EDESTADDRREQ = 89"
definition ENOPROTOOPT :: int where "ENOPROTOOPT = 92"
definition EADDRNOTAVAIL :: int where "EADDRNOTAVAIL = 99"
definition ERESTARTSYS :: int where "ERESTARTSYS = 512"

definition AF_CAN :: int where "AF_CAN = 29"
definition ARPHRD_CAN :: int where "ARPHRD_CAN = 280"

definition MSG_DONTROUTE :: u32 where "MSG_DONTROUTE = 0x4"
definition MSG_CONFIRM :: u32 where "MSG_CONFIRM = 0x800"

text \<open>The bits of \<open>j1939_sock.state\<close>.\<close>

definition J1939_SOCK_BOUND :: u32 where "J1939_SOCK_BOUND = 1"
definition J1939_SOCK_CONNECTED :: u32 where "J1939_SOCK_CONNECTED = 2"
definition J1939_SOCK_PROMISC :: u32 where "J1939_SOCK_PROMISC = 4"
definition J1939_SOCK_RECV_OWN :: u32 where "J1939_SOCK_RECV_OWN = 8"
definition J1939_SOCK_ERRQUEUE :: u32 where "J1939_SOCK_ERRQUEUE = 16"

text \<open>
  Modelled from the spec: the constants \<open>J1939_PGN_MAX\<close>, \<open>J1939_NO_ADDR\<close> and
  \<open>J1939_MAX_TP_PACKET_SIZE\<close> are declared outside socket.c. The spec gives a valid PGN
  as one that is at most 0x3FFFF, "no address" as 0xFE, and the largest segment as
  7 bytes times 255 packets.
\<close>

definition J1939_PGN_MAX :: pgn_t where "J1939_PGN_MAX = 0x3FFFF"
definition J1939_NO_ADDR :: u8 where "J1939_NO_ADDR = 0xFE"
definition J1939_MAX_TP_PACKET_SIZE :: nat where "J1939_MAX_TP_PACKET_SIZE = 7 * 255"

text \<open>
  The other declarations that socket.c takes from its headers are parameters of the
  model: the "no PGN" value, the length an address must have, the cap on the filter
  list and the size of one entry, and the two address predicates.
\<close>

record j1939_priv_h =
  J1939_NO_PGN :: pgn_t
  J1939_MIN_NAMELEN :: int
  J1939_FILTER_MAX :: nat
  sizeof_j1939_filter :: nat
  j1939_pgn_is_pdu1 :: "pgn_t \<Rightarrow> bool"
  j1939_address_is_unicast :: "u8 \<Rightarrow> bool"

subsection \<open>Data\<close>

record j1939_addr =
  src_name :: name_t
  dst_name :: name_t
  pgn :: pgn_t
  sa :: u8
  da :: u8

record j1939_filter =
  f_name :: name_t
  f_name_mask :: name_t
  f_pgn :: pgn_t
  f_pgn_mask :: pgn_t
  f_addr :: u8
  f_addr_mask :: u8

text \<open>\<open>struct sockaddr_can\<close> with its \<open>can_addr.j1939\<close> member.\<close>

record sockaddr_can =
  can_family :: int
  can_ifindex :: int
  can_name :: name_t
  can_pgn :: pgn_t
  can_addr :: u8

text \<open>
  The control block of a frame; \<open>insock\<close> is the socket the frame was sent from, if it
  was sent locally. Sockets are named by their address, a number.
\<close>

record j1939_sk_buff_cb =
  cb_addr :: j1939_addr
  cb_priority :: priority_t
  cb_msg_flags :: u32
  cb_offset :: nat
  insock :: "nat option"

record sk_buff =
  skb_ifindex :: int
  skb_len :: nat
  skb_cb :: j1939_sk_buff_cb

text \<open>
  \<open>struct j1939_sock\<close>, with the fields of the embedded \<open>struct sock\<close> that socket.c
  reads or writes. \<open>state\<close> is an \<open>int\<close> in the source, used only as a set of bits. The
  filter array and its count are one list. \<open>sk_broadcast\<close> is the socket flag
  \<open>SOCK_BROADCAST\<close>. Sizes are \<open>size_t\<close> in the source; they are bounded by the size of
  one message, so they are naturals here.
\<close>

record j1939_sock =
  state :: u32
  ifindex :: int
  addr :: j1939_addr
  filters :: "j1939_filter list"
  pgn_rx_filter :: pgn_t
  etp_tx_complete_size :: nat
  etp_tx_done_size :: nat
  skb_pending :: int
  sk_priority :: u32
  sk_reuse :: int
  sk_broadcast :: bool
  sk_err :: int
  sk_receive_queue :: "sk_buff list"
  sk_error_queue :: "sk_buff list"

subsection \<open>Priority conversion and PGN predicates\<close>

definition j1939_prio :: "u32 \<Rightarrow> priority_t" where
  "j1939_prio sk_prio = ucast (7 - min sk_prio 7)"

definition j1939_to_sk_priority :: "priority_t \<Rightarrow> u32" where
  "j1939_to_sk_priority prio = 7 - ucast prio"

definition j1939_pgn_is_valid :: "pgn_t \<Rightarrow> bool" where
  "j1939_pgn_is_valid p \<longleftrightarrow> p \<le> J1939_PGN_MAX"

definition j1939_pgn_is_clean_pdu :: "j1939_priv_h \<Rightarrow> pgn_t \<Rightarrow> bool" where
  "j1939_pgn_is_clean_pdu h p =
     (if j1939_pgn_is_pdu1 h p then p AND 0xff = 0 else True)"

definition j1939_sock_pending_add :: "j1939_sock \<Rightarrow> j1939_sock" where
  "j1939_sock_pending_add jsk = jsk\<lparr>skb_pending := skb_pending jsk + 1\<rparr>"

subsection \<open>Matching an inbound frame\<close>

definition j1939_sk_match_dst :: "j1939_priv_h \<Rightarrow> j1939_sock \<Rightarrow> j1939_sk_buff_cb \<Rightarrow> bool" where
  "j1939_sk_match_dst h jsk skcb =
     (if state jsk AND J1939_SOCK_PROMISC \<noteq> 0 then True
      else if (if src_name (addr jsk) \<noteq> 0 \<and> dst_name (cb_addr skcb) \<noteq> 0
               then src_name (addr jsk) \<noteq> dst_name (cb_addr skcb)
               else if j1939_address_is_unicast h (da (cb_addr skcb))
                    then sa (addr jsk) \<noteq> da (cb_addr skcb)
                    else \<not> sk_broadcast jsk)
      then False
      else if state jsk AND J1939_SOCK_CONNECTED \<noteq> 0 \<and>
              (if dst_name (addr jsk) \<noteq> 0 \<and> src_name (cb_addr skcb) \<noteq> 0
               then dst_name (addr jsk) \<noteq> src_name (cb_addr skcb)
               else da (addr jsk) \<noteq> sa (cb_addr skcb))
      then False
      else if j1939_pgn_is_valid (pgn_rx_filter jsk) \<and>
              pgn_rx_filter jsk \<noteq> pgn (cb_addr skcb)
      then False
      else True)"

text \<open>The loop of \<open>j1939_sk_match_filter\<close> over the entries that are left.\<close>

fun match_filter_loop :: "j1939_filter list \<Rightarrow> j1939_sk_buff_cb \<Rightarrow> bool" where
  "match_filter_loop [] skcb = False"
| "match_filter_loop (f # fs) skcb =
     (if pgn (cb_addr skcb) AND f_pgn_mask f \<noteq> f_pgn f then match_filter_loop fs skcb
      else if sa (cb_addr skcb) AND f_addr_mask f \<noteq> f_addr f then match_filter_loop fs skcb
      else if src_name (cb_addr skcb) AND f_name_mask f \<noteq> f_name f
           then match_filter_loop fs skcb
      else True)"

definition j1939_sk_match_filter :: "j1939_sock \<Rightarrow> j1939_sk_buff_cb \<Rightarrow> bool" where
  "j1939_sk_match_filter jsk skcb =
     (if length (filters jsk) = 0 then True
      else match_filter_loop (filters jsk) skcb)"

text \<open>
  \<open>j1939_sk_recv_one\<close> for the socket at address \<open>sk\<close>. Whether \<open>skb_clone\<close> returns a
  buffer and whether \<open>sock_queue_rcv_skb\<close> takes it are outcomes of the kernel, given as
  \<open>clone_ok\<close> and \<open>queue_ok\<close>. A delivered frame is appended to the receive queue.
\<close>

definition j1939_sk_recv_one ::
  "j1939_priv_h \<Rightarrow> bool \<Rightarrow> bool \<Rightarrow> nat \<Rightarrow> j1939_sock \<Rightarrow> sk_buff \<Rightarrow> j1939_sock" where
  "j1939_sk_recv_one h clone_ok queue_ok sk jsk oskb =
     (let oskcb = skb_cb oskb in
      if state jsk AND (J1939_SOCK_BOUND OR J1939_SOCK_CONNECTED) = 0 then jsk
      else if ifindex jsk \<noteq> skb_ifindex oskb then jsk
      else if insock oskcb = Some sk \<and> state jsk AND J1939_SOCK_RECV_OWN = 0 then jsk
      else if \<not> j1939_sk_match_dst h jsk oskcb then jsk
      else if \<not> j1939_sk_match_filter jsk oskcb then jsk
      else if \<not> clone_ok then jsk
      else
        let f0 = cb_msg_flags oskcb AND NOT (MSG_DONTROUTE OR MSG_CONFIRM);
            f1 = (if insock oskcb \<noteq> None then f0 OR MSG_DONTROUTE else f0);
            f2 = (if insock oskcb = Some sk then f1 OR MSG_CONFIRM else f1);
            skb = oskb\<lparr>skb_cb := oskcb\<lparr>cb_msg_flags := f2\<rparr>\<rparr>
        in if queue_ok then jsk\<lparr>sk_receive_queue := sk_receive_queue jsk @ [skb]\<rparr>
           else jsk)"

subsection \<open>Creation\<close>

definition j1939_sk_init :: "j1939_priv_h \<Rightarrow> j1939_sock \<Rightarrow> j1939_sock" where
  "j1939_sk_init h jsk =
     jsk\<lparr>sk_priority := j1939_to_sk_priority 6,
         sk_reuse := 1,
         addr := (addr jsk)\<lparr>sa := J1939_NO_ADDR, da := J1939_NO_ADDR, pgn := J1939_NO_PGN h\<rparr>,
         pgn_rx_filter := J1939_NO_PGN h,
         skb_pending := 0,
         etp_tx_complete_size := 0,
         etp_tx_done_size := 0\<rparr>"

subsection \<open>Socket options\<close>

datatype sockopt_level = SOL_CAN_J1939 | SOL_OTHER int

datatype sockopt_name =
    SO_J1939_FILTER | SO_J1939_PROMISC | SO_J1939_RECV_OWN
  | SO_J1939_ERRQUEUE | SO_J1939_SEND_PRIO | SO_OTHER int

text \<open>
  What the user's \<open>optval\<close> points to: nothing (a null pointer), memory that cannot be
  read, an \<open>int\<close>, or an array of filter entries. Reading an \<open>int\<close> from a buffer of
  another shape is taken as a fault.
\<close>

datatype optval = OPTVAL_NULL | OPTVAL_FAULT | OPTVAL_INT int | OPTVAL_FILTERS "j1939_filter list"

text \<open>
  Outcomes of the kernel that socket.c depends on when an option is set: whether the
  caller has \<open>CAP_NET_ADMIN\<close>, and the error of \<open>memdup_user\<close> (0 when it returns a copy).
\<close>

record sockopt_env =
  capable_net_admin :: bool
  memdup_user_err :: int

definition sizeof_int :: nat where "sizeof_int = 4"

definition copy_int_from_user :: "optval \<Rightarrow> int option" where
  "copy_int_from_user v = (case v of OPTVAL_INT t \<Rightarrow> Some t | _ \<Rightarrow> None)"

definition j1939_sk_setsockopt_flag ::
  "j1939_sock \<Rightarrow> optval \<Rightarrow> nat \<Rightarrow> u32 \<Rightarrow> int \<times> j1939_sock" where
  "j1939_sk_setsockopt_flag jsk v optlen flag =
     (if optlen \<noteq> sizeof_int then (- EINVAL, jsk)
      else case copy_int_from_user v of
        None \<Rightarrow> (- EFAULT, jsk)
      | Some tmp \<Rightarrow>
          (tmp, if tmp \<noteq> 0 then jsk\<lparr>state := state jsk OR flag\<rparr>
                else jsk\<lparr>state := state jsk AND NOT flag\<rparr>))"

text \<open>
  The filter entries that can be read at \<open>optval\<close>: \<open>memdup_user\<close> of more bytes than they
  take up faults. \<open>premask\<close> is the body of the loop that masks a copied entry.
\<close>

definition user_filters :: "optval \<Rightarrow> j1939_filter list" where
  "user_filters v = (case v of OPTVAL_FILTERS fs \<Rightarrow> fs | _ \<Rightarrow> [])"

definition premask :: "j1939_filter \<Rightarrow> j1939_filter" where
  "premask f = f\<lparr>f_name := f_name f AND f_name_mask f,
                f_pgn := f_pgn f AND f_pgn_mask f,
                f_addr := f_addr f AND f_addr_mask f\<rparr>"

definition j1939_sk_setsockopt ::
  "j1939_priv_h \<Rightarrow> sockopt_env \<Rightarrow> j1939_sock \<Rightarrow> sockopt_level \<Rightarrow> sockopt_name \<Rightarrow>
   optval \<Rightarrow> nat \<Rightarrow> int \<times> j1939_sock" where
  "j1939_sk_setsockopt h env jsk level optname v optlen =
     (if level \<noteq> SOL_CAN_J1939 then (- EINVAL, jsk)
      else case optname of
        SO_J1939_FILTER \<Rightarrow>
          (if v \<noteq> OPTVAL_NULL then
             if optlen mod sizeof_j1939_filter h \<noteq> 0 then (- EINVAL, jsk)
             else if optlen > J1939_FILTER_MAX h * sizeof_j1939_filter h then (- EINVAL, jsk)
             else
               let count = optlen div sizeof_j1939_filter h in
               if memdup_user_err env \<noteq> 0 then (memdup_user_err env, jsk)
               else if length (user_filters v) < count then (- EFAULT, jsk)
               else (0, jsk\<lparr>filters := map premask (take count (user_filters v))\<rparr>)
           else (0, jsk\<lparr>filters := []\<rparr>))
      | SO_J1939_PROMISC \<Rightarrow> j1939_sk_setsockopt_flag jsk v optlen J1939_SOCK_PROMISC
      | SO_J1939_RECV_OWN \<Rightarrow> j1939_sk_setsockopt_flag jsk v optlen J1939_SOCK_RECV_OWN
      | SO_J1939_ERRQUEUE \<Rightarrow>
          (case j1939_sk_setsockopt_flag jsk v optlen J1939_SOCK_ERRQUEUE of
             (ret, jsk') \<Rightarrow>
               if ret < 0 then (ret, jsk')
               else if state jsk' AND J1939_SOCK_ERRQUEUE = 0
                    then (ret, jsk'\<lparr>sk_error_queue := []\<rparr>)
               else (ret, jsk'))
      | SO_J1939_SEND_PRIO \<Rightarrow>
          (if optlen \<noteq> sizeof_int then (- EINVAL, jsk)
           else case copy_int_from_user v of
             None \<Rightarrow> (- EFAULT, jsk)
           | Some tmp \<Rightarrow>
               if tmp < 0 \<or> tmp > 7 then (- EDOM, jsk)
               else if tmp < 2 \<and> \<not> capable_net_admin env then (- EPERM, jsk)
               else (0, jsk\<lparr>sk_priority := j1939_to_sk_priority (of_int tmp)\<rparr>))
      | SO_OTHER n \<Rightarrow> (- ENOPROTOOPT, jsk))"

text \<open>
  \<open>j1939_sk_getsockopt\<close> returns its result code and the \<open>int\<close> it stored in the user's
  buffer, if it stored one. \<open>ulen\<close> is the length read from the user (\<open>None\<close> when
  \<open>get_user\<close> faults) and \<open>writable\<close> says whether the stores to user memory succeed.
  \<open>getsockopt_tmp\<close> is the switch that computes the value; the source has no case for
  the filter list.
\<close>

definition getsockopt_tmp :: "j1939_sock \<Rightarrow> sockopt_name \<Rightarrow> int option" where
  "getsockopt_tmp jsk optname =
     (case optname of
        SO_J1939_PROMISC \<Rightarrow> Some (if state jsk AND J1939_SOCK_PROMISC \<noteq> 0 then 1 else 0)
      | SO_J1939_RECV_OWN \<Rightarrow> Some (if state jsk AND J1939_SOCK_RECV_OWN \<noteq> 0 then 1 else 0)
      | SO_J1939_ERRQUEUE \<Rightarrow> Some (if state jsk AND J1939_SOCK_ERRQUEUE \<noteq> 0 then 1 else 0)
      | SO_J1939_SEND_PRIO \<Rightarrow> Some (uint (j1939_prio (sk_priority jsk)))
      | _ \<Rightarrow> None)"

definition j1939_sk_getsockopt ::
  "j1939_sock \<Rightarrow> sockopt_level \<Rightarrow> sockopt_name \<Rightarrow> int option \<Rightarrow> bool \<Rightarrow> int \<times> int option" where
  "j1939_sk_getsockopt jsk level optname ulen writable =
     (if level \<noteq> SOL_CAN_J1939 then (- EINVAL, None)
      else case ulen of
        None \<Rightarrow> (- EFAULT, None)
      | Some ul \<Rightarrow>
          if ul < 0 then (- EINVAL, None)
          else (case getsockopt_tmp jsk optname of
                  None \<Rightarrow> (- ENOPROTOOPT, None)
                | Some tmp \<Rightarrow>
                    if int sizeof_int > ul then (- EFAULT, None)
                    else if \<not> writable then (- EFAULT, None)
                    else (0, Some tmp)))"


subsection \<open>Addresses: sanity check, connect, getname\<close>

text \<open>
  A length is an \<open>int\<close> in the source and \<open>J1939_MIN_NAMELEN\<close> is a \<open>size_t\<close>, so the
  two are compared as unsigned values of 64 bits: a negative length is a large one.
\<close>

definition to_size_t :: "int \<Rightarrow> int" where
  "to_size_t n = n mod 2 ^ 64"

definition j1939_sk_sanity_check :: "j1939_priv_h \<Rightarrow> sockaddr_can option \<Rightarrow> int \<Rightarrow> int" where
  "j1939_sk_sanity_check h uaddr len =
     (case uaddr of
        None \<Rightarrow> - EDESTADDRREQ
      | Some a \<Rightarrow>
          if to_size_t len < to_size_t (J1939_MIN_NAMELEN h) then - EINVAL
          else if can_family a \<noteq> AF_CAN then - EINVAL
          else if can_ifindex a = 0 then - ENODEV
          else if j1939_pgn_is_valid (can_pgn a) \<and> \<not> j1939_pgn_is_clean_pdu h (can_pgn a)
               then - EINVAL
          else 0)"

definition j1939_sk_connect ::
  "j1939_priv_h \<Rightarrow> j1939_sock \<Rightarrow> sockaddr_can option \<Rightarrow> int \<Rightarrow> int \<times> j1939_sock" where
  "j1939_sk_connect h jsk uaddr len =
     (let ret = j1939_sk_sanity_check h uaddr len in
      if ret \<noteq> 0 then (ret, jsk)
      else case uaddr of
        None \<Rightarrow> (ret, jsk)
      | Some a \<Rightarrow>
          if state jsk AND J1939_SOCK_BOUND = 0 then (- EINVAL, jsk)
          else if ifindex jsk \<noteq> can_ifindex a then (- EINVAL, jsk)
          else if can_name a = 0 \<and> can_addr a = J1939_NO_ADDR \<and> \<not> sk_broadcast jsk
               then (- EACCES, jsk)
          else
            let a1 = (addr jsk)\<lparr>dst_name := can_name a, da := can_addr a\<rparr>;
                a2 = (if j1939_pgn_is_valid (can_pgn a) then a1\<lparr>pgn := can_pgn a\<rparr> else a1)
            in (0, jsk\<lparr>addr := a2, state := state jsk OR J1939_SOCK_CONNECTED\<rparr>))"

definition j1939_sk_sock2sockaddr_can :: "j1939_sock \<Rightarrow> bool \<Rightarrow> sockaddr_can" where
  "j1939_sk_sock2sockaddr_can jsk peer =
     \<lparr>can_family = AF_CAN,
      can_ifindex = ifindex jsk,
      can_name = (if peer then dst_name (addr jsk) else src_name (addr jsk)),
      can_pgn = pgn (addr jsk),
      can_addr = (if peer then da (addr jsk) else sa (addr jsk))\<rparr>"

text \<open>\<open>j1939_sk_getname\<close>: the result code and the address it wrote, if it wrote one.\<close>

definition j1939_sk_getname ::
  "j1939_priv_h \<Rightarrow> j1939_sock \<Rightarrow> bool \<Rightarrow> int \<times> sockaddr_can option" where
  "j1939_sk_getname h jsk peer =
     (if peer \<and> state jsk AND J1939_SOCK_CONNECTED = 0 then (- EADDRNOTAVAIL, None)
      else (J1939_MIN_NAMELEN h, Some (j1939_sk_sock2sockaddr_can jsk peer)))"

subsection \<open>The interfaces and their J1939 instances\<close>

record net_device =
  dev_ifindex :: int
  dev_type :: int

text \<open>
  Modelled from the spec: the per-interface instance (\<open>struct j1939_priv\<close>), the local-ECU
  registry (\<open>j1939_local_ecu_get\<close>, \<open>j1939_local_ecu_put\<close>) and the start and stop of an
  interface's instance (\<open>j1939_netdev_start\<close>, \<open>j1939_netdev_stop\<close>) are not in socket.c.
  The spec describes a list of bound endpoints per interface, a registry in which a claim
  on (NAME, address) is acquired and released, and an instance that is started and
  stopped. Here an instance holds the list of linked sockets, the claims that are held,
  one per successful get and not yet put, and the number of starts not yet stopped.
  Whether a get or a start succeeds is an outcome given to the model.
\<close>

record j1939_priv =
  j1939_socks :: "nat list"
  ecu_claims :: "(name_t \<times> u8) list"
  netdev_users :: int

definition j1939_local_ecu_get ::
  "int \<Rightarrow> j1939_priv \<Rightarrow> name_t \<Rightarrow> u8 \<Rightarrow> int \<times> j1939_priv" where
  "j1939_local_ecu_get outcome priv name a =
     (if outcome = 0 then (0, priv\<lparr>ecu_claims := ecu_claims priv @ [(name, a)]\<rparr>)
      else (outcome, priv))"

definition j1939_local_ecu_put :: "j1939_priv \<Rightarrow> name_t \<Rightarrow> u8 \<Rightarrow> j1939_priv" where
  "j1939_local_ecu_put priv name a = priv\<lparr>ecu_claims := remove1 (name, a) (ecu_claims priv)\<rparr>"

definition j1939_netdev_start :: "int \<Rightarrow> j1939_priv \<Rightarrow> int \<times> j1939_priv" where
  "j1939_netdev_start outcome priv =
     (if outcome < 0 then (outcome, priv)
      else (outcome, priv\<lparr>netdev_users := netdev_users priv + 1\<rparr>))"

definition j1939_netdev_stop :: "j1939_priv \<Rightarrow> j1939_priv" where
  "j1939_netdev_stop priv = priv\<lparr>netdev_users := netdev_users priv - 1\<rparr>"

text \<open>
  The state that bind and the device events work on: the devices by interface index
  (\<open>dev_get_by_index\<close>), the instance of each interface (\<open>j1939_priv_get_by_ndev\<close>) and
  the sockets by address.
\<close>

record world =
  devs :: "int \<Rightarrow> net_device option"
  privs :: "int \<Rightarrow> j1939_priv"
  socks :: "nat \<Rightarrow> j1939_sock"

record bind_env =
  netdev_start_ret :: int
  local_ecu_get_ret :: int

subsection \<open>Bind\<close>

text \<open>
  The part of \<open>j1939_sk_bind\<close> after the bound / not bound branches: it stores the
  address, takes the new claim and, on the first bind, links the socket.
\<close>

definition bind_finish ::
  "bind_env \<Rightarrow> world \<Rightarrow> nat \<Rightarrow> sockaddr_can \<Rightarrow> net_device \<Rightarrow> int \<times> world" where
  "bind_finish env w sk a ndev =
     (let i = dev_ifindex ndev;
          jsk = socks w sk;
          jsk1 = jsk\<lparr>pgn_rx_filter :=
                       (if j1939_pgn_is_valid (can_pgn a) then can_pgn a else pgn_rx_filter jsk),
                     addr := (addr jsk)\<lparr>src_name := can_name a, sa := can_addr a\<rparr>\<rparr>
      in case j1939_local_ecu_get (local_ecu_get_ret env) (privs w i)
                (src_name (addr jsk1)) (sa (addr jsk1)) of
           (ret, priv) \<Rightarrow>
             if ret \<noteq> 0
             then (ret, w\<lparr>privs := (privs w)(i := j1939_netdev_stop priv),
                          socks := (socks w)(sk := jsk1)\<rparr>)
             else if state jsk1 AND J1939_SOCK_BOUND = 0
             then (ret, w\<lparr>privs := (privs w)(i := priv\<lparr>j1939_socks := j1939_socks priv @ [sk]\<rparr>),
                          socks := (socks w)(sk := jsk1\<lparr>state := state jsk1 OR J1939_SOCK_BOUND\<rparr>)\<rparr>)
             else (ret, w\<lparr>privs := (privs w)(i := priv), socks := (socks w)(sk := jsk1)\<rparr>))"

definition j1939_sk_bind ::
  "j1939_priv_h \<Rightarrow> bind_env \<Rightarrow> world \<Rightarrow> nat \<Rightarrow> sockaddr_can option \<Rightarrow> int \<Rightarrow> int \<times> world" where
  "j1939_sk_bind h env w sk uaddr len =
     (let ret = j1939_sk_sanity_check h uaddr len in
      if ret \<noteq> 0 then (ret, w)
      else case uaddr of
        None \<Rightarrow> (ret, w)
      | Some a \<Rightarrow>
          (case devs w (can_ifindex a) of
             None \<Rightarrow> (- ENODEV, w)
           | Some ndev \<Rightarrow>
               let i = dev_ifindex ndev; jsk = socks w sk in
               if state jsk AND J1939_SOCK_BOUND \<noteq> 0 then
                 if ifindex jsk \<noteq> can_ifindex a then (- EINVAL, w)
                 else bind_finish env
                        (w\<lparr>privs := (privs w)(i := j1939_local_ecu_put (privs w i)
                                                      (src_name (addr jsk)) (sa (addr jsk)))\<rparr>)
                        sk a ndev
               else if dev_type ndev \<noteq> ARPHRD_CAN then (- ENODEV, w)
               else
                 (case j1939_netdev_start (netdev_start_ret env) (privs w i) of
                    (ret, priv) \<Rightarrow>
                      if ret < 0 then (ret, w)
                      else bind_finish env
                             (w\<lparr>privs := (privs w)(i := priv),
                                socks := (socks w)(sk := jsk\<lparr>ifindex := can_ifindex a\<rparr>)\<rparr>)
                             sk a ndev)))"

subsection \<open>Device events\<close>

text \<open>
  The walk of \<open>j1939_sk_netdev_event\<close> over the sockets linked to the interface. The call
  of \<open>sk_error_report\<close> wakes the socket's waiters and changes no field of the model.
\<close>

fun netdev_event_socks :: "int \<Rightarrow> int \<Rightarrow> nat list \<Rightarrow> world \<Rightarrow> world" where
  "netdev_event_socks i error_code [] w = w"
| "netdev_event_socks i error_code (sk # sks) w =
     (let jsk = socks w sk;
          w1 = w\<lparr>socks := (socks w)(sk := jsk\<lparr>sk_err := error_code\<rparr>)\<rparr>;
          w2 = (if error_code = ENODEV
                then w1\<lparr>privs := (privs w1)
                        (i := j1939_netdev_stop
                                (j1939_local_ecu_put (privs w1 i)
                                   (src_name (addr jsk)) (sa (addr jsk))))\<rparr>
                else w1)
      in netdev_event_socks i error_code sks w2)"

definition j1939_sk_netdev_event :: "world \<Rightarrow> net_device \<Rightarrow> int \<Rightarrow> world" where
  "j1939_sk_netdev_event w ndev error_code =
     netdev_event_socks (dev_ifindex ndev) error_code
       (j1939_socks (privs w (dev_ifindex ndev))) w"

subsection \<open>Sending\<close>

record msghdr =
  msg_name :: "sockaddr_can option"
  msg_namelen :: int
  msg_flags :: u32

text \<open>
  A session pointer as the transport engine returns it: null, an error pointer
  (\<open>IS_ERR\<close>, with its \<open>PTR_ERR\<close>), or a session.
\<close>

datatype session_ptr = SESSION_NULL | SESSION_ERR int | SESSION nat

text \<open>What the socket layer hands to the engine, in the order of the calls.\<close>

datatype tx_event =
    TP_SEND sk_buff nat
  | SESSION_SKB_QUEUE session_ptr sk_buff
  | SEND_ONE sk_buff

text \<open>
  Outcomes of the kernel and of the engine during one send: whether the device and its
  instance are found; the error code that the \<open>n\<close>-th buffer allocation of the call
  leaves (0 when a buffer is returned and filled; \<open>sock_alloc_send_skb\<close> and
  \<open>memcpy_from_msg\<close> report a failure with a nonzero code); what \<open>j1939_tp_send\<close> and
  \<open>j1939_session_get_by_skcb\<close> return; the result of \<open>j1939_send_one\<close>.
\<close>

record tx_env =
  dev_found :: bool
  priv_found :: bool
  alloc_errcode :: "nat \<Rightarrow> int"
  tp_send_result :: session_ptr
  session_get_result :: session_ptr
  send_one_ret :: int

text \<open>
  \<open>j1939_sk_alloc_skb\<close>: the error code on failure, or the buffer with its control block
  stamped from the socket and from the destination given with the message.
\<close>

definition j1939_sk_alloc_skb ::
  "int \<Rightarrow> int \<Rightarrow> j1939_sock \<Rightarrow> msghdr \<Rightarrow> nat \<Rightarrow> int + sk_buff" where
  "j1939_sk_alloc_skb errcode ndev_ifindex jsk msg sz =
     (if errcode \<noteq> 0 then Inl errcode
      else
        let skcb = \<lparr>cb_addr = addr jsk, cb_priority = j1939_prio (sk_priority jsk),
                    cb_msg_flags = msg_flags msg, cb_offset = 0, insock = None\<rparr>;
            skcb2 =
              (case msg_name msg of
                 None \<Rightarrow> skcb
               | Some a \<Rightarrow>
                   let c1 = (if can_name a \<noteq> 0 \<or> can_addr a \<noteq> J1939_NO_ADDR
                             then skcb\<lparr>cb_addr := (cb_addr skcb)\<lparr>dst_name := can_name a,
                                                                  da := can_addr a\<rparr>\<rparr>
                             else skcb)
                   in if j1939_pgn_is_valid (can_pgn a)
                      then c1\<lparr>cb_addr := (cb_addr c1)\<lparr>pgn := can_pgn a\<rparr>\<rparr>
                      else c1)
        in Inr \<lparr>skb_ifindex = ndev_ifindex, skb_len = sz, skb_cb = skcb2\<rparr>)"

text \<open>
  One pass of the body of the loop in \<open>j1939_sk_send_multi\<close>, for a segment of
  \<open>segment_size\<close> bytes: it leaves the loop through \<open>break\<close>, leaves the function
  through the label \<open>kfree_skb\<close>, or queues the segment.
\<close>

datatype segment_result = BREAK int | KFREE_SKB int | QUEUED session_ptr tx_event

definition send_multi_segment ::
  "tx_env \<Rightarrow> int \<Rightarrow> msghdr \<Rightarrow> j1939_sock \<Rightarrow> session_ptr \<Rightarrow> nat \<Rightarrow> nat \<Rightarrow> segment_result" where
  "send_multi_segment env ndev_ifindex msg jsk session segment_size n =
     (case j1939_sk_alloc_skb (alloc_errcode env n) ndev_ifindex jsk msg segment_size of
        Inl ret \<Rightarrow> BREAK ret
      | Inr skb0 \<Rightarrow>
          let skb = skb0\<lparr>skb_cb := (skb_cb skb0)\<lparr>cb_offset := etp_tx_done_size jsk\<rparr>\<rparr> in
          if session = SESSION_NULL then
            if etp_tx_done_size jsk \<noteq> 0 then
              (case session_get_result env of
                 SESSION_ERR e \<Rightarrow> KFREE_SKB e
               | SESSION_NULL \<Rightarrow> KFREE_SKB (- ENOENT)
               | SESSION s \<Rightarrow> QUEUED (SESSION s) (SESSION_SKB_QUEUE (SESSION s) skb))
            else
              (case tp_send_result env of
                 SESSION_ERR e \<Rightarrow> KFREE_SKB e
               | s \<Rightarrow> QUEUED s (TP_SEND skb (etp_tx_complete_size jsk)))
          else QUEUED session (SESSION_SKB_QUEUE session skb))"

datatype loop_exit =
    LOOP_END int nat j1939_sock "tx_event list"
  | LOOP_KFREE_SKB int j1939_sock "tx_event list"

text \<open>
  The loop: \<open>LOOP_END ret todo_size\<close> is the state at the \<open>switch\<close> after it, and
  \<open>LOOP_KFREE_SKB ret\<close> is the return through the label \<open>kfree_skb\<close>.
\<close>

function send_multi_loop ::
  "tx_env \<Rightarrow> int \<Rightarrow> msghdr \<Rightarrow> j1939_sock \<Rightarrow> session_ptr \<Rightarrow> nat \<Rightarrow> nat \<Rightarrow> tx_event list
   \<Rightarrow> loop_exit" where
  "send_multi_loop env ndev_ifindex msg jsk session todo_size n evs =
     (if todo_size = 0 then LOOP_END 0 todo_size jsk evs
      else
        let segment_size = (if todo_size > J1939_MAX_TP_PACKET_SIZE
                            then J1939_MAX_TP_PACKET_SIZE else todo_size)
        in case send_multi_segment env ndev_ifindex msg jsk session segment_size n of
             BREAK ret \<Rightarrow> LOOP_END ret todo_size jsk evs
           | KFREE_SKB ret \<Rightarrow> LOOP_KFREE_SKB ret (jsk\<lparr>etp_tx_done_size := 0\<rparr>) evs
           | QUEUED s ev \<Rightarrow>
               send_multi_loop env ndev_ifindex msg
                 (jsk\<lparr>etp_tx_done_size := etp_tx_done_size jsk + segment_size\<rparr>)
                 s (todo_size - segment_size) (Suc n) (evs @ [ev]))"
  by pat_completeness auto
termination
  by (relation "measure (\<lambda>(env, ndev_ifindex, msg, jsk, session, todo_size, n, evs). todo_size)")
     (auto simp add: J1939_MAX_TP_PACKET_SIZE_def)

declare send_multi_loop.simps [simp del]

definition j1939_sk_send_multi ::
  "tx_env \<Rightarrow> int \<Rightarrow> j1939_sock \<Rightarrow> msghdr \<Rightarrow> nat \<Rightarrow> int \<times> j1939_sock \<times> tx_event list" where
  "j1939_sk_send_multi env ndev_ifindex jsk msg sz =
     (if etp_tx_done_size jsk \<noteq> 0 \<and>
         etp_tx_complete_size jsk \<noteq> etp_tx_done_size jsk + sz
      then (- EIO, jsk, [])
      else
        let jsk1 = (if etp_tx_done_size jsk = 0
                    then (j1939_sock_pending_add jsk)\<lparr>etp_tx_complete_size := sz\<rparr>
                    else jsk)
        in case send_multi_loop env ndev_ifindex msg jsk1 SESSION_NULL sz 0 [] of
             LOOP_KFREE_SKB ret jsk2 evs \<Rightarrow> (ret, jsk2, evs)
           | LOOP_END ret todo_size jsk2 evs \<Rightarrow>
               if ret = 0 then (int sz, jsk2\<lparr>etp_tx_done_size := 0\<rparr>, evs)
               else if ret = - ERESTARTSYS then
                 (if todo_size \<noteq> sz then int (sz - todo_size) else - EINTR, jsk2, evs)
               else if ret = - EAGAIN then
                 (if todo_size \<noteq> sz then int (sz - todo_size) else ret, jsk2, evs)
               else (ret, jsk2\<lparr>etp_tx_done_size := 0\<rparr>, evs))"

definition j1939_sk_send_one ::
  "tx_env \<Rightarrow> int \<Rightarrow> j1939_sock \<Rightarrow> msghdr \<Rightarrow> nat \<Rightarrow> int \<times> tx_event list" where
  "j1939_sk_send_one env ndev_ifindex jsk msg sz =
     (case j1939_sk_alloc_skb (alloc_errcode env 0) ndev_ifindex jsk msg sz of
        Inl ret \<Rightarrow> (ret, [])
      | Inr skb \<Rightarrow>
          (if send_one_ret env \<noteq> 0 then send_one_ret env else int sz, [SEND_ONE skb]))"

text \<open>The checks of \<open>j1939_sk_sendmsg\<close> on the destination: 0, or the error returned.\<close>

definition sendmsg_check_dest :: "j1939_priv_h \<Rightarrow> j1939_sock \<Rightarrow> msghdr \<Rightarrow> int" where
  "sendmsg_check_dest h jsk msg =
     (case msg_name msg of
        Some a \<Rightarrow>
          if to_size_t (msg_namelen msg) < to_size_t (J1939_MIN_NAMELEN h) then - EINVAL
          else if can_family a \<noteq> AF_CAN then - EINVAL
          else if can_ifindex a \<noteq> 0 \<and> can_ifindex a \<noteq> ifindex jsk then - EBADFD
          else if j1939_pgn_is_valid (can_pgn a) \<and> \<not> j1939_pgn_is_clean_pdu h (can_pgn a)
               then - EINVAL
          else if can_name a = 0 \<and> can_addr a = J1939_NO_ADDR \<and> \<not> sk_broadcast jsk
               then - EACCES
          else 0
      | None \<Rightarrow>
          if dst_name (addr jsk) = 0 \<and> da (addr jsk) = J1939_NO_ADDR \<and> \<not> sk_broadcast jsk
          then - EACCES
          else 0)"

definition j1939_sk_sendmsg ::
  "j1939_priv_h \<Rightarrow> tx_env \<Rightarrow> j1939_sock \<Rightarrow> msghdr \<Rightarrow> nat \<Rightarrow> int \<times> j1939_sock \<times> tx_event list" where
  "j1939_sk_sendmsg h env jsk msg sz =
     (if state jsk AND J1939_SOCK_BOUND = 0 then (- EBADFD, jsk, [])
      else if src_name (addr jsk) = 0 \<and> sa (addr jsk) = J1939_NO_ADDR then (- EBADFD, jsk, [])
      else if sendmsg_check_dest h jsk msg \<noteq> 0 then (sendmsg_check_dest h jsk msg, jsk, [])
      else if \<not> dev_found env then (- ENXIO, jsk, [])
      else if \<not> priv_found env then (- EINVAL, jsk, [])
      else if sz > 8 then j1939_sk_send_multi env (ifindex jsk) jsk msg sz
      else case j1939_sk_send_one env (ifindex jsk) jsk msg sz of
             (ret, evs) \<Rightarrow> (ret, jsk, evs))"

subsection \<open>Reading the log of a send\<close>

text \<open>The payload bytes of an entry, their sum over a log, and the single-frame entries.\<close>

fun tx_event_len :: "tx_event \<Rightarrow> nat" where
  "tx_event_len (TP_SEND skb n) = skb_len skb"
| "tx_event_len (SESSION_SKB_QUEUE s skb) = skb_len skb"
| "tx_event_len (SEND_ONE skb) = skb_len skb"

definition queued_bytes :: "tx_event list \<Rightarrow> nat" where
  "queued_bytes evs = sum_list (map tx_event_len evs)"

fun is_single_frame :: "tx_event \<Rightarrow> bool" where
  "is_single_frame (SEND_ONE skb) = True"
| "is_single_frame ev = False"

section \<open>Example values\<close>

text \<open>
  An instance of the header declarations, with the values of the Linux headers. The
  theorems hold for every instance; the examples are evaluated at this one.
\<close>

definition ex_h :: j1939_priv_h where
  "ex_h = \<lparr>J1939_NO_PGN = 0x40000, J1939_MIN_NAMELEN = 24, J1939_FILTER_MAX = 512,
     sizeof_j1939_filter = 32,
     j1939_pgn_is_pdu1 = (\<lambda>p. p AND 0xff00 < 0xf000),
     j1939_address_is_unicast = (\<lambda>a. a \<le> 0xfd)\<rparr>"

text \<open>The zeroed memory that the socket core hands to \<open>j1939_sk_init\<close>, and a new socket.\<close>

definition zero_sock :: j1939_sock where
  "zero_sock = \<lparr>state = 0, ifindex = 0,
     addr = \<lparr>src_name = 0, dst_name = 0, pgn = 0, sa = 0, da = 0\<rparr>,
     filters = [], pgn_rx_filter = 0, etp_tx_complete_size = 0, etp_tx_done_size = 0,
     skb_pending = 0, sk_priority = 0, sk_reuse = 0, sk_broadcast = False, sk_err = 0,
     sk_receive_queue = [], sk_error_queue = []\<rparr>"

definition new_sock :: j1939_sock where
  "new_sock = j1939_sk_init ex_h zero_sock"

definition user_env :: sockopt_env where
  "user_env = \<lparr>capable_net_admin = False, memdup_user_err = 0\<rparr>"

text \<open>
  A socket on interface 1 that is bound to address 0x10, connected to address 0x20 and
  promiscuous, with the PGN receive filter 0x1F004; and a frame on interface 1 from
  address 0x30 to address 0x99 with PGN 0x1F005.
\<close>

definition promisc_sock :: j1939_sock where
  "promisc_sock = new_sock\<lparr>state := 7, ifindex := 1,
      addr := \<lparr>src_name = 0, dst_name = 0, pgn = 0x40000, sa = 0x10, da = 0x20\<rparr>,
      pgn_rx_filter := 0x1F004\<rparr>"

definition foreign_skb :: sk_buff where
  "foreign_skb = \<lparr>skb_ifindex = 1, skb_len = 8,
      skb_cb = \<lparr>cb_addr = \<lparr>src_name = 0, dst_name = 0, pgn = 0x1F005, sa = 0x30, da = 0x99\<rparr>,
                cb_priority = 6, cb_msg_flags = 0, cb_offset = 0, insock = None\<rparr>\<rparr>"

text \<open>A filter entry whose PGN has bits outside its mask, and a frame with that PGN.\<close>

definition unmasked_filter :: j1939_filter where
  "unmasked_filter = \<lparr>f_name = 0, f_name_mask = 0, f_pgn = 0x1F0A5, f_pgn_mask = 0x1FF00,
                      f_addr = 0, f_addr_mask = 0\<rparr>"

definition probe_cb :: j1939_sk_buff_cb where
  "probe_cb = \<lparr>cb_addr = \<lparr>src_name = 0, dst_name = 0, pgn = 0x1F0A5, sa = 0x30, da = 0x10\<rparr>,
               cb_priority = 6, cb_msg_flags = 0, cb_offset = 0, insock = None\<rparr>"

text \<open>
  A world with the CAN device 1, no instance state and new sockets; the outcomes of a
  bind that succeeds and of one whose claim fails for lack of memory; two addresses.
\<close>

definition can0 :: net_device where
  "can0 = \<lparr>dev_ifindex = 1, dev_type = ARPHRD_CAN\<rparr>"

definition empty_priv :: j1939_priv where
  "empty_priv = \<lparr>j1939_socks = [], ecu_claims = [], netdev_users = 0\<rparr>"

definition ex_world :: world where
  "ex_world = \<lparr>devs = (\<lambda>i. if i = 1 then Some can0 else None),
               privs = (\<lambda>i. empty_priv),
               socks = (\<lambda>sk. new_sock)\<rparr>"

definition ok_env :: bind_env where
  "ok_env = \<lparr>netdev_start_ret = 0, local_ecu_get_ret = 0\<rparr>"

definition nomem_env :: bind_env where
  "nomem_env = \<lparr>netdev_start_ret = 0, local_ecu_get_ret = - ENOMEM\<rparr>"

definition ex_bind_addr :: sockaddr_can where
  "ex_bind_addr = \<lparr>can_family = AF_CAN, can_ifindex = 1, can_name = 0, can_pgn = 0x1F004,
                   can_addr = 0x10\<rparr>"

definition ex_rebind_addr :: sockaddr_can where
  "ex_rebind_addr = \<lparr>can_family = AF_CAN, can_ifindex = 1, can_name = 0x1122334455667788,
                     can_pgn = 0x40000, can_addr = 0x20\<rparr>"

definition bound_world :: world where
  "bound_world = snd (j1939_sk_bind ex_h ok_env ex_world 0 (Some ex_bind_addr) 24)"

text \<open>
  For sending: a socket bound to address 0x10 on interface 1, the same socket in the
  middle of a datagram of 2000 bytes, a socket bound without a source, a message for
  address 0x20, a message without a destination, and outcomes of the engine.
\<close>

definition bound_sock :: j1939_sock where
  "bound_sock = new_sock\<lparr>state := 1, ifindex := 1,
      addr := \<lparr>src_name = 0, dst_name = 0, pgn = 0x40000, sa = 0x10, da = 0xFE\<rparr>\<rparr>"

definition midway_sock :: j1939_sock where
  "midway_sock = bound_sock\<lparr>etp_tx_complete_size := 2000, etp_tx_done_size := 1785,
      skb_pending := 1\<rparr>"


definition msg_to_20 :: msghdr where
  "msg_to_20 = \<lparr>msg_name = Some \<lparr>can_family = AF_CAN, can_ifindex = 0, can_name = 0,
                                 can_pgn = 0x1F004, can_addr = 0x20\<rparr>,
                msg_namelen = 24, msg_flags = 0\<rparr>"



definition ok_tx_env :: tx_env where
  "ok_tx_env = \<lparr>dev_found = True, priv_found = True, alloc_errcode = (\<lambda>n. 0),
                tp_send_result = SESSION 1, session_get_result = SESSION 1,
                send_one_ret = 0\<rparr>"











section \<open>Facts used throughout\<close>

lemmas new_sock_defs = new_sock_def zero_sock_def j1939_sk_init_def j1939_to_sk_priority_def
  J1939_NO_ADDR_def ex_h_def

section \<open>Send priority\<close>

lemma prio_cases:
  assumes "0 \<le> p" "p \<le> 7"
  shows "p = 0 \<or> p = 1 \<or> p = 2 \<or> p = 3 \<or> p = 4 \<or> p = 5 \<or> p = 6 \<or> p = (7::int)"
  using assms by arith

lemma to_sk_priority_of_int:
  assumes "0 \<le> p" "p \<le> 7"
  shows "j1939_to_sk_priority (of_int p) = of_int (7 - p)"
  using prio_cases [OF assms] by (elim disjE) (simp_all add: j1939_to_sk_priority_def)

lemma prio_roundtrip:
  assumes "0 \<le> p" "p \<le> 7"
  shows "uint (j1939_prio (j1939_to_sk_priority (of_int p))) = p"
  using prio_cases [OF assms]
  by (elim disjE) (simp_all add: j1939_prio_def j1939_to_sk_priority_def)

lemma prio_unat: "unat (j1939_prio x) = 7 - min (unat x) 7"
proof -
  have le: "min x 7 \<le> 7" by simp
  have m: "unat (min x 7) = min (unat x) 7"
    by (simp add: min_def word_le_nat_alt)
  have s: "unat (7 - min x 7) = 7 - min (unat x) 7"
    using le m by (simp add: unat_sub)
  have "unat (ucast (7 - min x 7 :: 32 word) :: 8 word) = unat (7 - min x 7) mod 256"
    by (simp add: unsigned_ucast_eq take_bit_eq_mod)
  with s show ?thesis by (simp add: j1939_prio_def)
qed

lemma prio_range: "0 \<le> uint (j1939_prio x) \<and> uint (j1939_prio x) \<le> 7"
proof -
  have "unat (j1939_prio x) \<le> 7" by (simp add: prio_unat)
  then have "int (unat (j1939_prio x)) \<le> 7" by linarith
  then show ?thesis by simp
qed

text \<open>
  Claim C9. Setting \<open>SO_J1939_SEND_PRIO\<close> to the integer \<open>p\<close> (with the option length of
  an \<open>int\<close>, from readable memory): a \<open>p\<close> outside 0..7 is refused with \<open>EDOM\<close>; a \<open>p\<close>
  of 0 or 1 from a caller without \<open>CAP_NET_ADMIN\<close> is refused with \<open>EPERM\<close>; every other
  \<open>p\<close> is stored as \<open>7 - p\<close> in \<open>sk_priority\<close>, and reading the option back gives \<open>p\<close>.
  The range check comes first, so a negative \<open>p\<close> is \<open>EDOM\<close> whatever the capability.
\<close>

theorem setsockopt_send_prio_contract:
  "(p < 0 \<or> 7 < p \<longrightarrow>
      j1939_sk_setsockopt h env jsk SOL_CAN_J1939 SO_J1939_SEND_PRIO (OPTVAL_INT p) sizeof_int
        = (- EDOM, jsk)) \<and>
   (0 \<le> p \<and> p < 2 \<and> \<not> capable_net_admin env \<longrightarrow>
      j1939_sk_setsockopt h env jsk SOL_CAN_J1939 SO_J1939_SEND_PRIO (OPTVAL_INT p) sizeof_int
        = (- EPERM, jsk)) \<and>
   (0 \<le> p \<and> p \<le> 7 \<and> (2 \<le> p \<or> capable_net_admin env) \<longrightarrow>
      j1939_sk_setsockopt h env jsk SOL_CAN_J1939 SO_J1939_SEND_PRIO (OPTVAL_INT p) sizeof_int
        = (0, jsk\<lparr>sk_priority := of_int (7 - p)\<rparr>) \<and>
      j1939_sk_getsockopt (jsk\<lparr>sk_priority := of_int (7 - p)\<rparr>)
        SOL_CAN_J1939 SO_J1939_SEND_PRIO (Some (int sizeof_int)) True = (0, Some p))"
proof -
  have dom: "j1939_sk_setsockopt h env jsk SOL_CAN_J1939 SO_J1939_SEND_PRIO (OPTVAL_INT p) sizeof_int
        = (- EDOM, jsk)" if "p < 0 \<or> 7 < p"
    using that by (auto simp add: j1939_sk_setsockopt_def copy_int_from_user_def)
  have perm: "j1939_sk_setsockopt h env jsk SOL_CAN_J1939 SO_J1939_SEND_PRIO (OPTVAL_INT p) sizeof_int
        = (- EPERM, jsk)" if "0 \<le> p \<and> p < 2 \<and> \<not> capable_net_admin env"
    using that by (auto simp add: j1939_sk_setsockopt_def copy_int_from_user_def)
  have ok: "j1939_sk_setsockopt h env jsk SOL_CAN_J1939 SO_J1939_SEND_PRIO (OPTVAL_INT p) sizeof_int
        = (0, jsk\<lparr>sk_priority := of_int (7 - p)\<rparr>)"
    if "0 \<le> p \<and> p \<le> 7 \<and> (2 \<le> p \<or> capable_net_admin env)"
    using that
    by (auto simp add: j1939_sk_setsockopt_def copy_int_from_user_def to_sk_priority_of_int)
  have rt: "j1939_sk_getsockopt (jsk\<lparr>sk_priority := of_int (7 - p)\<rparr>)
        SOL_CAN_J1939 SO_J1939_SEND_PRIO (Some (int sizeof_int)) True = (0, Some p)"
    if a: "0 \<le> p \<and> p \<le> 7 \<and> (2 \<le> p \<or> capable_net_admin env)"
  proof -
    have "uint (j1939_prio (j1939_to_sk_priority (of_int p))) = p"
      using a by (simp add: prio_roundtrip)
    then have "uint (j1939_prio (of_int (7 - p))) = p"
      using a by (simp add: to_sk_priority_of_int)
    then show ?thesis
      by (simp add: j1939_sk_getsockopt_def getsockopt_tmp_def)
  qed
  from dom perm ok rt show ?thesis by blast
qed

theorem setsockopt_send_prio_contract_witness:
  "((9::int) < 0 \<or> 7 < (9::int)) \<and>
   j1939_sk_setsockopt ex_h user_env new_sock SOL_CAN_J1939 SO_J1939_SEND_PRIO
     (OPTVAL_INT 9) sizeof_int = (- EDOM, new_sock) \<and>
   ((0::int) \<le> 1 \<and> (1::int) < 2 \<and> \<not> capable_net_admin user_env) \<and>
   j1939_sk_setsockopt ex_h user_env new_sock SOL_CAN_J1939 SO_J1939_SEND_PRIO
     (OPTVAL_INT 1) sizeof_int = (- EPERM, new_sock) \<and>
   ((0::int) \<le> 3 \<and> (3::int) \<le> 7 \<and> ((2::int) \<le> 3 \<or> capable_net_admin user_env)) \<and>
   j1939_sk_setsockopt ex_h user_env new_sock SOL_CAN_J1939 SO_J1939_SEND_PRIO
     (OPTVAL_INT 3) sizeof_int = (0, new_sock\<lparr>sk_priority := 4\<rparr>) \<and>
   j1939_sk_getsockopt (new_sock\<lparr>sk_priority := 4\<rparr>)
     SOL_CAN_J1939 SO_J1939_SEND_PRIO (Some (int sizeof_int)) True = (0, Some 3)"
  using setsockopt_send_prio_contract [of 9 ex_h user_env new_sock]
    setsockopt_send_prio_contract [of 1 ex_h user_env new_sock]
    setsockopt_send_prio_contract [of 3 ex_h user_env new_sock]
  by (simp add: user_env_def)

text \<open>
  Claim C10. A socket that \<open>j1939_sk_init\<close> has just set up reports the send priority 6.
  In every state of a socket, whatever \<open>sk_priority\<close> holds, a value that
  \<open>getsockopt(SO_J1939_SEND_PRIO)\<close> stores lies in 0..7, since \<open>j1939_prio\<close> takes the
  minimum with 7 before it subtracts from 7.
\<close>

theorem getsockopt_send_prio_range:
  "j1939_sk_getsockopt (j1939_sk_init h jsk0) SOL_CAN_J1939 SO_J1939_SEND_PRIO
      (Some (int sizeof_int)) True = (0, Some 6) \<and>
   (j1939_sk_getsockopt jsk SOL_CAN_J1939 SO_J1939_SEND_PRIO ulen writable = (r, Some v)
      \<longrightarrow> 0 \<le> v \<and> v \<le> 7)"
proof -
  have fresh: "j1939_sk_getsockopt (j1939_sk_init h jsk0) SOL_CAN_J1939 SO_J1939_SEND_PRIO
      (Some (int sizeof_int)) True = (0, Some 6)"
    by (simp add: j1939_sk_getsockopt_def getsockopt_tmp_def j1939_sk_init_def
        j1939_prio_def j1939_to_sk_priority_def)
  have rng: "0 \<le> v \<and> v \<le> 7"
    if "j1939_sk_getsockopt jsk SOL_CAN_J1939 SO_J1939_SEND_PRIO ulen writable = (r, Some v)"
  proof -
    from that have "v = uint (j1939_prio (sk_priority jsk))"
      by (auto simp add: j1939_sk_getsockopt_def getsockopt_tmp_def split: option.splits if_splits)
    then show ?thesis using prio_range by simp
  qed
  from fresh rng show ?thesis by blast
qed

theorem getsockopt_send_prio_range_witness:
  "j1939_sk_getsockopt (j1939_sk_init ex_h zero_sock) SOL_CAN_J1939 SO_J1939_SEND_PRIO
      (Some (int sizeof_int)) True = (0, Some 6) \<and>
   j1939_sk_getsockopt (new_sock\<lparr>sk_priority := 1000\<rparr>) SOL_CAN_J1939 SO_J1939_SEND_PRIO
      (Some 4) True = (0, Some 0) \<and> (0::int) \<le> 0 \<and> (0::int) \<le> 7"
proof -
  have g: "j1939_sk_getsockopt (new_sock\<lparr>sk_priority := 1000\<rparr>) SOL_CAN_J1939
      SO_J1939_SEND_PRIO (Some 4) True = (0, Some 0)"
    by (simp add: j1939_sk_getsockopt_def getsockopt_tmp_def j1939_prio_def sizeof_int_def)
  from g getsockopt_send_prio_range
    [of ex_h zero_sock "new_sock\<lparr>sk_priority := 1000\<rparr>" "Some 4" True 0 0]
  show ?thesis by simp
qed

section \<open>Receiving\<close>

text \<open>
  Claim C1, as stated, fails: a promiscuous, connected socket with a valid PGN receive
  filter is given a frame whose source is not its peer and whose PGN is not the
  filter's, and the frame is queued for it.
\<close>

theorem promisc_source_pgn_counterexample:
  "state promisc_sock AND J1939_SOCK_PROMISC \<noteq> 0 \<and>
   state promisc_sock AND J1939_SOCK_CONNECTED \<noteq> 0 \<and>
   dst_name (addr promisc_sock) = 0 \<and>
   da (addr promisc_sock) \<noteq> sa (cb_addr (skb_cb foreign_skb)) \<and>
   j1939_pgn_is_valid (pgn_rx_filter promisc_sock) \<and>
   pgn (cb_addr (skb_cb foreign_skb)) \<noteq> pgn_rx_filter promisc_sock \<and>
   sk_receive_queue promisc_sock = [] \<and>
   sk_receive_queue (j1939_sk_recv_one ex_h True True 5 promisc_sock foreign_skb)
     = [foreign_skb]"
  by (simp add: promisc_sock_def foreign_skb_def new_sock_defs
      j1939_sk_recv_one_def j1939_sk_match_dst_def j1939_sk_match_filter_def
      j1939_pgn_is_valid_def J1939_PGN_MAX_def J1939_SOCK_BOUND_def J1939_SOCK_CONNECTED_def
      J1939_SOCK_PROMISC_def J1939_SOCK_RECV_OWN_def MSG_DONTROUTE_def MSG_CONFIRM_def)

text \<open>
  Claim C1, amended. For a socket with the PROMISC flag, \<open>j1939_sk_match_dst\<close> accepts
  every frame: the flag is tested first and exempts the destination match, the source
  match of a connected socket and the PGN receive filter together. The frame is queued
  exactly when the socket is bound or connected, the frame came in on the socket's
  interface, it is not the socket's own frame unless RECV_OWN is set, the user filter
  list accepts it, and the clone is allocated and taken by the receive queue.
\<close>

theorem promisc_skips_match_dst:
  assumes "state jsk AND J1939_SOCK_PROMISC \<noteq> 0"
  shows "j1939_sk_match_dst h jsk skcb \<and>
    (sk_receive_queue (j1939_sk_recv_one h clone_ok queue_ok sk jsk oskb) \<noteq> sk_receive_queue jsk
       \<longleftrightarrow> state jsk AND (J1939_SOCK_BOUND OR J1939_SOCK_CONNECTED) \<noteq> 0 \<and>
            ifindex jsk = skb_ifindex oskb \<and>
            (insock (skb_cb oskb) = Some sk \<longrightarrow> state jsk AND J1939_SOCK_RECV_OWN \<noteq> 0) \<and>
            j1939_sk_match_filter jsk (skb_cb oskb) \<and> clone_ok \<and> queue_ok)"
proof -
  have m: "j1939_sk_match_dst h jsk c" for c
    using assms by (simp add: j1939_sk_match_dst_def)
  show ?thesis
    using m by (auto simp add: j1939_sk_recv_one_def Let_def)
qed

theorem promisc_skips_match_dst_witness:
  "state promisc_sock AND J1939_SOCK_PROMISC \<noteq> 0 \<and>
   j1939_sk_match_dst ex_h promisc_sock (skb_cb foreign_skb) \<and>
   sk_receive_queue (j1939_sk_recv_one ex_h True True 5 promisc_sock foreign_skb)
     \<noteq> sk_receive_queue promisc_sock"
proof -
  have p: "state promisc_sock AND J1939_SOCK_PROMISC \<noteq> 0"
    by (simp add: promisc_sock_def J1939_SOCK_PROMISC_def)
  from promisc_skips_match_dst [OF p, of ex_h "skb_cb foreign_skb" True True 5 foreign_skb] p
  show ?thesis
    by (simp add: promisc_sock_def foreign_skb_def new_sock_defs J1939_SOCK_BOUND_def
        J1939_SOCK_CONNECTED_def J1939_SOCK_PROMISC_def J1939_SOCK_RECV_OWN_def
        j1939_sk_match_filter_def)
qed

lemma match_filter_loop_iff:
  "match_filter_loop fs skcb \<longleftrightarrow>
     (\<exists>f \<in> set fs. pgn (cb_addr skcb) AND f_pgn_mask f = f_pgn f \<and>
                    sa (cb_addr skcb) AND f_addr_mask f = f_addr f \<and>
                    src_name (cb_addr skcb) AND f_name_mask f = f_name f)"
  by (induction fs) auto

text \<open>
  Claim C7, as stated, fails: the list holding one entry with PGN 0x1F0A5 under the mask
  0x1FF00 is installed, a frame with PGN 0x1F0A5 passes the filter stage, and yet the
  frame's masked PGN, 0x1F000, is not the entry's PGN.
\<close>

theorem filter_unmasked_entry_counterexample:
  "fst (j1939_sk_setsockopt ex_h user_env new_sock SOL_CAN_J1939 SO_J1939_FILTER
          (OPTVAL_FILTERS [unmasked_filter]) 32) = 0 \<and>
   j1939_sk_match_filter
     (snd (j1939_sk_setsockopt ex_h user_env new_sock SOL_CAN_J1939 SO_J1939_FILTER
             (OPTVAL_FILTERS [unmasked_filter]) 32)) probe_cb \<and>
   pgn (cb_addr probe_cb) AND f_pgn_mask unmasked_filter \<noteq> f_pgn unmasked_filter"
  by (simp add: j1939_sk_setsockopt_def user_filters_def ex_h_def user_env_def
      unmasked_filter_def premask_def j1939_sk_match_filter_def probe_cb_def)

text \<open>
  Claim C7, amended. Installing a list \<open>F\<close> of at most \<open>J1939_FILTER_MAX\<close> entries with
  \<open>SO_J1939_FILTER\<close> succeeds and stores every entry masked by its own masks. After it a
  frame passes the filter stage iff \<open>F\<close> is empty or some entry \<open>m\<close> of \<open>F\<close> agrees with
  the frame under its masks: the frame's PGN, source address and source NAME, each
  masked, equal the entry's PGN, address and NAME, each masked the same way.
\<close>

theorem filter_install_masked:
  assumes "0 < sizeof_j1939_filter h" "length F \<le> J1939_FILTER_MAX h" "memdup_user_err env = 0"
  shows "j1939_sk_setsockopt h env jsk SOL_CAN_J1939 SO_J1939_FILTER (OPTVAL_FILTERS F)
           (length F * sizeof_j1939_filter h) = (0, jsk\<lparr>filters := map premask F\<rparr>) \<and>
         (j1939_sk_match_filter (jsk\<lparr>filters := map premask F\<rparr>) skcb \<longleftrightarrow>
            F = [] \<or>
            (\<exists>m \<in> set F.
               pgn (cb_addr skcb) AND f_pgn_mask m = f_pgn m AND f_pgn_mask m \<and>
               sa (cb_addr skcb) AND f_addr_mask m = f_addr m AND f_addr_mask m \<and>
               src_name (cb_addr skcb) AND f_name_mask m = f_name m AND f_name_mask m))"
proof -
  have a: "j1939_sk_setsockopt h env jsk SOL_CAN_J1939 SO_J1939_FILTER (OPTVAL_FILTERS F)
           (length F * sizeof_j1939_filter h) = (0, jsk\<lparr>filters := map premask F\<rparr>)"
    using assms by (simp add: j1939_sk_setsockopt_def user_filters_def)
  have b: "j1939_sk_match_filter (jsk\<lparr>filters := map premask F\<rparr>) skcb \<longleftrightarrow>
            F = [] \<or>
            (\<exists>m \<in> set F.
               pgn (cb_addr skcb) AND f_pgn_mask m = f_pgn m AND f_pgn_mask m \<and>
               sa (cb_addr skcb) AND f_addr_mask m = f_addr m AND f_addr_mask m \<and>
               src_name (cb_addr skcb) AND f_name_mask m = f_name m AND f_name_mask m)"
    by (auto simp add: j1939_sk_match_filter_def match_filter_loop_iff premask_def)
  from a b show ?thesis by blast
qed

theorem filter_install_masked_witness:
  "0 < sizeof_j1939_filter ex_h \<and> length [unmasked_filter] \<le> J1939_FILTER_MAX ex_h \<and>
   memdup_user_err user_env = 0 \<and>
   j1939_sk_setsockopt ex_h user_env new_sock SOL_CAN_J1939 SO_J1939_FILTER
     (OPTVAL_FILTERS [unmasked_filter]) 32
     = (0, new_sock\<lparr>filters := [premask unmasked_filter]\<rparr>) \<and>
   j1939_sk_match_filter (new_sock\<lparr>filters := [premask unmasked_filter]\<rparr>) probe_cb"
proof -
  have h: "0 < sizeof_j1939_filter ex_h" "length [unmasked_filter] \<le> J1939_FILTER_MAX ex_h"
    "memdup_user_err user_env = 0"
    by (simp_all add: ex_h_def user_env_def)
  have s: "length [unmasked_filter] * sizeof_j1939_filter ex_h = 32"
    by (simp add: ex_h_def)
  from filter_install_masked [OF h, of new_sock probe_cb] h show ?thesis
    unfolding s by (simp add: unmasked_filter_def probe_cb_def)
qed

section \<open>Bind and the per-interface state\<close>

lemmas bind_defs = j1939_sk_bind_def bind_finish_def j1939_sk_sanity_check_def
  j1939_local_ecu_get_def j1939_local_ecu_put_def j1939_netdev_start_def j1939_netdev_stop_def
  j1939_pgn_is_valid_def j1939_pgn_is_clean_pdu_def J1939_PGN_MAX_def

lemmas world_defs = can0_def empty_priv_def ex_world_def ok_env_def ex_bind_addr_def AF_CAN_def
  ARPHRD_CAN_def

lemma bound_world_eval:
  "j1939_sk_bind ex_h ok_env ex_world 0 (Some ex_bind_addr) 24 = (0, bound_world)"
  "state (socks bound_world 0) = 1"
  "ifindex (socks bound_world 0) = 1"
  "addr (socks bound_world 0) =
     \<lparr>src_name = 0, dst_name = 0, pgn = 0x40000, sa = 0x10, da = 0xFE\<rparr>"
  "pgn_rx_filter (socks bound_world 0) = 0x1F004"
  "devs bound_world 1 = Some can0"
  "j1939_socks (privs bound_world 1) = [0]"
  "ecu_claims (privs bound_world 1) = [(0, 0x10)]"
  "netdev_users (privs bound_world 1) = 1"
  by (simp_all add: bound_world_def world_defs new_sock_defs bind_defs J1939_SOCK_BOUND_def
      Let_def)

text \<open>
  Claim C2, as stated, fails: a new socket is bound with the valid PGN 0x1F004, the bind
  succeeds, and getsockname reports the PGN 0x40000 ("no PGN"), not 0x1F004.
\<close>

theorem bind_getsockname_pgn_counterexample:
  "fst (j1939_sk_bind ex_h ok_env ex_world 0 (Some ex_bind_addr) 24) = 0 \<and>
   can_pgn ex_bind_addr = 0x1F004 \<and>
   j1939_pgn_is_valid (can_pgn ex_bind_addr) \<and>
   map_option can_pgn
     (snd (j1939_sk_getname ex_h
        (socks (snd (j1939_sk_bind ex_h ok_env ex_world 0 (Some ex_bind_addr) 24)) 0) False))
     = Some 0x40000"
  unfolding bound_world_eval(1)
  by (simp add: bound_world_eval j1939_sk_getname_def j1939_sk_sock2sockaddr_can_def
      ex_bind_addr_def j1939_pgn_is_valid_def J1939_PGN_MAX_def)

text \<open>
  Claim C2, amended. After a bind with the address \<open>X\<close> that returns 0, getsockname
  returns the family \<open>AF_CAN\<close>, the interface index, the NAME and the address of \<open>X\<close>. Its
  PGN is the PGN the socket already had in its address, which bind leaves as it is; a
  valid PGN of \<open>X\<close> becomes the PGN receive filter of the socket.
\<close>

theorem bind_getsockname:
  assumes "j1939_sk_bind h env w sk (Some X) len = (0, w')"
  shows "j1939_sk_getname h (socks w' sk) False =
           (J1939_MIN_NAMELEN h,
            Some \<lparr>can_family = AF_CAN, can_ifindex = can_ifindex X, can_name = can_name X,
                  can_pgn = pgn (addr (socks w sk)), can_addr = can_addr X\<rparr>) \<and>
         pgn_rx_filter (socks w' sk) =
           (if j1939_pgn_is_valid (can_pgn X) then can_pgn X else pgn_rx_filter (socks w sk))"
  using assms
  by (auto simp add: j1939_sk_bind_def bind_finish_def Let_def j1939_sk_getname_def
      j1939_sk_sock2sockaddr_can_def j1939_local_ecu_get_def j1939_netdev_start_def
      ENODEV_def EINVAL_def
      split: if_splits option.splits prod.splits)

theorem bind_getsockname_witness:
  "j1939_sk_bind ex_h ok_env ex_world 0 (Some ex_bind_addr) 24 = (0, bound_world) \<and>
   j1939_sk_getname ex_h (socks bound_world 0) False =
     (24, Some \<lparr>can_family = AF_CAN, can_ifindex = 1, can_name = 0, can_pgn = 0x40000,
                can_addr = 0x10\<rparr>) \<and>
   pgn_rx_filter (socks bound_world 0) = 0x1F004"
  using bind_getsockname [OF bound_world_eval(1)] bound_world_eval(1)
  by (simp add: ex_bind_addr_def ex_world_def new_sock_defs j1939_pgn_is_valid_def
      J1939_PGN_MAX_def)

text \<open>
  Claim C3 does not hold of the code. The socket 0 is bound on interface 1 to
  (NAME 0, address 0x10): it is linked once and one claim is held for it. A second bind
  of the same socket on the same interface, in which \<open>j1939_local_ecu_get\<close> fails with
  \<open>ENOMEM\<close>, has put the old claim and taken none: the socket is still BOUND and linked,
  no claim is held, and the interface's instance has been stopped. The same holds after
  the event \<open>ENODEV\<close> on the device: the walk puts the claim of every linked socket and
  leaves each BOUND and linked.
\<close>

theorem rebind_failure_leaves_bound_without_claim:
  "state (socks bound_world 0) AND J1939_SOCK_BOUND \<noteq> 0 \<and>
   j1939_socks (privs bound_world 1) = [0] \<and>
   ecu_claims (privs bound_world 1) =
     [(src_name (addr (socks bound_world 0)), sa (addr (socks bound_world 0)))] \<and>
   (case j1939_sk_bind ex_h nomem_env bound_world 0 (Some ex_rebind_addr) 24 of
      (ret, w) \<Rightarrow>
        ret = - ENOMEM \<and>
        state (socks w 0) AND J1939_SOCK_BOUND \<noteq> 0 \<and>
        ifindex (socks w 0) = 1 \<and>
        j1939_socks (privs w 1) = [0] \<and>
        count_list (ecu_claims (privs w 1))
          (src_name (addr (socks w 0)), sa (addr (socks w 0))) = 0 \<and>
        ecu_claims (privs w 1) = [] \<and>
        netdev_users (privs w 1) = 0) \<and>
   (let w = j1939_sk_netdev_event bound_world can0 ENODEV in
        state (socks w 0) AND J1939_SOCK_BOUND \<noteq> 0 \<and>
        j1939_socks (privs w 1) = [0] \<and>
        ecu_claims (privs w 1) = [])"
  by (simp add: bound_world_eval bind_defs Let_def ex_rebind_addr_def nomem_env_def ex_h_def
      j1939_sk_netdev_event_def can0_def ENOMEM_def ENODEV_def J1939_SOCK_BOUND_def AF_CAN_def)

section \<open>Sending\<close>

lemma queued_bytes_append [simp]: "queued_bytes (evs @ [ev]) = queued_bytes evs + tx_event_len ev"
  by (simp add: queued_bytes_def)

lemma queued_bytes_Nil [simp]: "queued_bytes [] = 0"
  by (simp add: queued_bytes_def)


















text \<open>
  Claim C5. A call of \<open>j1939_sk_send_multi\<close> in the middle of a datagram
  (\<open>etp_tx_done_size > 0\<close>) whose size does not complete the datagram returns \<open>-EIO\<close>,
  hands nothing to the engine and leaves the socket, with both sizes, as it was.
\<close>

theorem send_multi_size_mismatch:
  assumes "0 < etp_tx_done_size jsk"
    and "etp_tx_done_size jsk + sz \<noteq> etp_tx_complete_size jsk"
  shows "j1939_sk_send_multi env i jsk msg sz = (- EIO, jsk, [])"
  using assms by (auto simp add: j1939_sk_send_multi_def)

theorem send_multi_size_mismatch_witness:
  "0 < etp_tx_done_size midway_sock \<and>
   etp_tx_done_size midway_sock + 100 \<noteq> etp_tx_complete_size midway_sock \<and>
   j1939_sk_send_multi ok_tx_env 1 midway_sock msg_to_20 100 = (- EIO, midway_sock, [])"
proof -
  have h: "0 < etp_tx_done_size midway_sock"
    "etp_tx_done_size midway_sock + 100 \<noteq> etp_tx_complete_size midway_sock"
    by (simp_all add: midway_sock_def)
  from send_multi_size_mismatch [OF h, where env = ok_tx_env and i = 1 and msg = msg_to_20] h
  show ?thesis by simp
qed




lemma segment_not_single:
  "send_multi_segment env i msg jsk session seg n = QUEUED s ev \<Longrightarrow> \<not> is_single_frame ev"
  by (auto simp add: send_multi_segment_def Let_def
      split: sum.splits if_splits session_ptr.splits)

lemma loop_not_single:
  "\<forall>e \<in> set evs. \<not> is_single_frame e \<Longrightarrow>
   (send_multi_loop env i msg jsk session todo n evs = LOOP_END ret t jsk' evs'
      \<longrightarrow> (\<forall>e \<in> set evs'. \<not> is_single_frame e)) \<and>
   (send_multi_loop env i msg jsk session todo n evs = LOOP_KFREE_SKB ret jsk' evs'
      \<longrightarrow> (\<forall>e \<in> set evs'. \<not> is_single_frame e))"
proof (induction env i msg jsk session todo n evs rule: send_multi_loop.induct)
  case (1 env i msg jsk session todo n evs)
  show ?case
  proof (cases "todo = 0")
    case True
    with 1 show ?thesis by (subst (1 2) send_multi_loop.simps) auto
  next
    case False
    define seg where "seg = (if todo > J1939_MAX_TP_PACKET_SIZE then J1939_MAX_TP_PACKET_SIZE else todo)"
    show ?thesis
    proof (cases "send_multi_segment env i msg jsk session seg n")
      case (BREAK r)
      with False 1(2) show ?thesis
        by (subst (1 2) send_multi_loop.simps) (auto simp add: Let_def seg_def)
    next
      case (KFREE_SKB r)
      with False 1(2) show ?thesis
        by (subst (1 2) send_multi_loop.simps) (auto simp add: Let_def seg_def)
    next
      case (QUEUED s ev)
      then have ns: "\<not> is_single_frame ev" by (rule segment_not_single)
      with 1(2) have all: "\<forall>e \<in> set (evs @ [ev]). \<not> is_single_frame e" by auto
      from 1(1) [OF False seg_def QUEUED all] QUEUED False show ?thesis
        by (subst (1 2) send_multi_loop.simps) (simp add: Let_def seg_def)
    qed
  qed
qed

lemma send_multi_not_single:
  "\<forall>e \<in> set (snd (snd (j1939_sk_send_multi env i jsk msg sz))). \<not> is_single_frame e"
proof (cases "etp_tx_done_size jsk \<noteq> 0 \<and> etp_tx_complete_size jsk \<noteq> etp_tx_done_size jsk + sz")
  case True
  then show ?thesis by (simp add: j1939_sk_send_multi_def)
next
  case False
  define jsk1 where "jsk1 = (if etp_tx_done_size jsk = 0
                    then (j1939_sock_pending_add jsk)\<lparr>etp_tx_complete_size := sz\<rparr>
                    else jsk)"
  have e: "\<forall>e \<in> set ([] :: tx_event list). \<not> is_single_frame e" by simp
  show ?thesis
  proof (cases "send_multi_loop env i msg jsk1 SESSION_NULL sz 0 []")
    case (LOOP_END ret t jsk' evs')
    with loop_not_single [OF e, of env i msg jsk1 SESSION_NULL sz 0 ret t jsk' evs']
    have "\<forall>e \<in> set evs'. \<not> is_single_frame e" by simp
    with LOOP_END False show ?thesis
      by (simp add: j1939_sk_send_multi_def Let_def jsk1_def)
  next
    case (LOOP_KFREE_SKB ret jsk' evs')
    with loop_not_single [OF e, of env i msg jsk1 SESSION_NULL sz 0 ret _ jsk' evs']
    have "\<forall>e \<in> set evs'. \<not> is_single_frame e" by simp
    with LOOP_KFREE_SKB False show ?thesis
      by (simp add: j1939_sk_send_multi_def Let_def jsk1_def)
  qed
qed

lemma send_one_single:
  "\<forall>e \<in> set (snd (j1939_sk_send_one env i jsk msg sz)). is_single_frame e"
  by (simp add: j1939_sk_send_one_def split: sum.splits)

text \<open>
  Claim C8. When \<open>j1939_sk_sendmsg\<close> gets past its checks (the socket is bound and has a
  source, the destination is accepted, the device and its instance are found), a payload
  of at most 8 bytes goes to \<open>j1939_sk_send_one\<close> and everything handed to the engine is
  a single frame; a payload of 9 bytes or more goes to \<open>j1939_sk_send_multi\<close> and nothing
  handed to the engine is a single frame.
\<close>

theorem sendmsg_dispatch:
  assumes "state jsk AND J1939_SOCK_BOUND \<noteq> 0"
    and "src_name (addr jsk) \<noteq> 0 \<or> sa (addr jsk) \<noteq> J1939_NO_ADDR"
    and "sendmsg_check_dest h jsk msg = 0"
    and "dev_found env" and "priv_found env"
  shows "(sz \<le> 8 \<longrightarrow>
            j1939_sk_sendmsg h env jsk msg sz =
              (fst (j1939_sk_send_one env (ifindex jsk) jsk msg sz), jsk,
               snd (j1939_sk_send_one env (ifindex jsk) jsk msg sz)) \<and>
            (\<forall>e \<in> set (snd (snd (j1939_sk_sendmsg h env jsk msg sz))). is_single_frame e)) \<and>
         (9 \<le> sz \<longrightarrow>
            j1939_sk_sendmsg h env jsk msg sz = j1939_sk_send_multi env (ifindex jsk) jsk msg sz \<and>
            (\<forall>e \<in> set (snd (snd (j1939_sk_sendmsg h env jsk msg sz))). \<not> is_single_frame e))"
proof -
  have one: "j1939_sk_sendmsg h env jsk msg sz =
              (fst (j1939_sk_send_one env (ifindex jsk) jsk msg sz), jsk,
               snd (j1939_sk_send_one env (ifindex jsk) jsk msg sz))" if "sz \<le> 8"
    using assms that by (auto simp add: j1939_sk_sendmsg_def split: prod.splits)
  have multi: "j1939_sk_sendmsg h env jsk msg sz = j1939_sk_send_multi env (ifindex jsk) jsk msg sz"
    if "9 \<le> sz"
    using assms that by (auto simp add: j1939_sk_sendmsg_def)
  show ?thesis
    using one multi send_one_single [of env "ifindex jsk" jsk msg sz]
      send_multi_not_single [of env "ifindex jsk" jsk msg sz]
    by auto
qed

theorem sendmsg_dispatch_witness:
  "state bound_sock AND J1939_SOCK_BOUND \<noteq> 0 \<and>
   sa (addr bound_sock) \<noteq> J1939_NO_ADDR \<and>
   sendmsg_check_dest ex_h bound_sock msg_to_20 = 0 \<and>
   dev_found ok_tx_env \<and> priv_found ok_tx_env \<and>
   j1939_sk_sendmsg ex_h ok_tx_env bound_sock msg_to_20 8 =
     (fst (j1939_sk_send_one ok_tx_env 1 bound_sock msg_to_20 8), bound_sock,
      snd (j1939_sk_send_one ok_tx_env 1 bound_sock msg_to_20 8)) \<and>
   list_all is_single_frame (snd (snd (j1939_sk_sendmsg ex_h ok_tx_env bound_sock msg_to_20 8))) \<and>
   map tx_event_len (snd (snd (j1939_sk_sendmsg ex_h ok_tx_env bound_sock msg_to_20 8))) = [8] \<and>
   j1939_sk_sendmsg ex_h ok_tx_env bound_sock msg_to_20 9 =
     j1939_sk_send_multi ok_tx_env 1 bound_sock msg_to_20 9 \<and>
   list_all (\<lambda>e. \<not> is_single_frame e)
     (snd (snd (j1939_sk_sendmsg ex_h ok_tx_env bound_sock msg_to_20 9))) \<and>
   map tx_event_len (snd (snd (j1939_sk_sendmsg ex_h ok_tx_env bound_sock msg_to_20 9))) = [9]"
proof -
  have h: "state bound_sock AND J1939_SOCK_BOUND \<noteq> 0"
    "src_name (addr bound_sock) \<noteq> 0 \<or> sa (addr bound_sock) \<noteq> J1939_NO_ADDR"
    "sendmsg_check_dest ex_h bound_sock msg_to_20 = 0"
    "dev_found ok_tx_env" "priv_found ok_tx_env"
    by (simp_all add: bound_sock_def new_sock_defs J1939_SOCK_BOUND_def sendmsg_check_dest_def
        msg_to_20_def ok_tx_env_def j1939_pgn_is_valid_def J1939_PGN_MAX_def
        j1939_pgn_is_clean_pdu_def AF_CAN_def)
  have i: "ifindex bound_sock = 1" by (simp add: bound_sock_def)
  have d: "etp_tx_done_size bound_sock = 0" by (simp add: bound_sock_def new_sock_defs)
  have a: "sa (addr bound_sock) \<noteq> J1939_NO_ADDR" by (simp add: bound_sock_def new_sock_defs)
  have one: "map tx_event_len (snd (j1939_sk_send_one ok_tx_env 1 bound_sock msg_to_20 8)) = [8]"
    by (simp add: j1939_sk_send_one_def j1939_sk_alloc_skb_def ok_tx_env_def msg_to_20_def
        Let_def)
  have multi:
    "map tx_event_len (snd (snd (j1939_sk_send_multi ok_tx_env 1 bound_sock msg_to_20 9))) = [9]"
    by (simp add: j1939_sk_send_multi_def d send_multi_loop.simps send_multi_segment_def
        j1939_sk_alloc_skb_def j1939_sock_pending_add_def ok_tx_env_def msg_to_20_def Let_def
        J1939_MAX_TP_PACKET_SIZE_def)
  from sendmsg_dispatch [OF h, where sz = 8] sendmsg_dispatch [OF h, where sz = 9] h i one multi a
  show ?thesis by (simp add: list_all_iff)
qed

end
